theory Spec2Isabelle
  imports Main "HOL-Library.Word"
begin

unbundle bit_operations_syntax

section \<open>Job attempt model of the REST server (models/v2/job-attempt.js)\<close>

text \<open>
  The module answers two questions about a framework (a job) of the cluster: the list of
  its attempts, and one attempt by index. It reads the live framework from the Kubernetes
  API and the snapshots of earlier attempts from an Elasticsearch index. Both services, the
  converter \<open>convertToJobAttempt\<close>, the launcher configuration and the built-in functions
  of the runtime are outside the module: the services are part of the \<open>world\<close> record
  below, the built-in functions are a record of their own, and the converter is a
  parameter of the functions, taken as a total function (a converter that throws is
  outside this model). Every function that contacts a service returns, beside its result,
  the list of the requests it sent.
\<close>

subsection \<open>JavaScript values, as far as the module compares them\<close>

datatype js_val =
    JUndefined
  | JNull
  | JBool bool
  | JNum int
  | JStr string
  | JFunction string

text \<open>\<open>a === b\<close>: values of different types are never equal.\<close>

definition strict_eq :: "js_val \<Rightarrow> js_val \<Rightarrow> bool" where
  "strict_eq a b = (a = b)"

text \<open>What \<open>!v\<close> and \<open>if (v)\<close> test: a function object is always truthy.\<close>

fun truthy :: "js_val \<Rightarrow> bool" where
  "truthy JUndefined = False"
| "truthy JNull = False"
| "truthy (JBool b) = b"
| "truthy (JNum n) = (n \<noteq> 0)"
| "truthy (JStr s) = (s \<noteq> [])"
| "truthy (JFunction f) = True"

subsection \<open>Strings and the built-in functions of the runtime\<close>

text \<open>
  A JavaScript string is a sequence of UTF-16 code units. The names given to the module
  and the keys it derives from them are modelled so; the strings the module only passes
  on (uids, messages) are HOL strings. \<open>js\<close> is the JavaScript string of a literal.
\<close>

type_synonym js_string = "16 word list"

definition code_unit :: "char \<Rightarrow> 16 word" where
  "code_unit c = of_nat (of_char c)"

definition js :: "string \<Rightarrow> js_string" where
  "js s = map code_unit s"

text \<open>
  The two built-in functions \<open>encodeName\<close> calls: \<open>String.prototype.toLowerCase\<close>, the
  lower-casing of Unicode on whole strings, and the MD5 digest
  \<open>crypto.createHash('md5').update(name).digest()\<close>, 128 bits. Neither is code of the
  module: the model takes both as given, and every statement below holds whatever they
  are.
\<close>

record js_runtime =
  toLowerCase :: "js_string \<Rightarrow> js_string"
  md5 :: "js_string \<Rightarrow> 128 word"

subsection \<open>Name encoding (lines 35-48)\<close>

text \<open>The character class \<open>[a-z0-9]\<close>.\<close>

definition is_a_z0_9 :: "16 word \<Rightarrow> bool" where
  "is_a_z0_9 c =
     (let n = unat c
      in (97 \<le> n \<and> n \<le> 122) \<or> (48 \<le> n \<and> n \<le> 57))"

text \<open>\<open>name.toLowerCase().replace(/[^a-z0-9]/g, '')\<close>\<close>

definition convertName :: "js_runtime \<Rightarrow> js_string \<Rightarrow> js_string" where
  "convertName rt name = filter is_a_z0_9 (toLowerCase rt name)"

definition startsWith :: "js_string \<Rightarrow> js_string \<Rightarrow> bool" where
  "startsWith s p = (take (length p) s = p)"

text \<open>\<open>s.includes(c)\<close> for a single character.\<close>

definition includes_char :: "js_string \<Rightarrow> 16 word \<Rightarrow> bool" where
  "includes_char s c = (c \<in> set s)"

text \<open>
  \<open>name.replace(/^unknown/g, '')\<close>: the pattern is anchored at the start of the string,
  so at most one occurrence, the leading one, is removed.
\<close>

definition replace_leading_unknown :: "js_string \<Rightarrow> js_string" where
  "replace_leading_unknown name =
     (if startsWith name (js ''unknown'') then drop (length (js ''unknown'')) name else name)"

text \<open>
  \<open>digest('hex')\<close> of a 128-bit digest: 32 lower-case hexadecimal digits, the most
  significant nibble first.
\<close>

definition hex_digit :: "nat \<Rightarrow> 16 word" where
  "hex_digit n = js ''0123456789abcdef'' ! (n mod 16)"

definition digest_hex :: "128 word \<Rightarrow> js_string" where
  "digest_hex d = map (\<lambda>i. hex_digit (unat (drop_bit (4 * (31 - i)) d AND 15))) [0..<32]"

text \<open>\<open>encodeName\<close>\<close>

definition encodeName :: "js_runtime \<Rightarrow> js_string \<Rightarrow> js_string" where
  "encodeName rt name =
     (if startsWith name (js ''unknown'') \<or> \<not> includes_char name (code_unit (CHR ''~''))
      then convertName rt (replace_leading_unknown name)
      else digest_hex (md5 rt name))"

text \<open>
  For the statements about the hexadecimal form: the character class \<open>[0-9a-f]\<close>, and
  the number a string of such digits denotes, read independently of \<open>digest_hex\<close>.
\<close>

definition is_hex :: "16 word \<Rightarrow> bool" where
  "is_hex c =
     (let n = unat c
      in (97 \<le> n \<and> n \<le> 102) \<or> (48 \<le> n \<and> n \<le> 57))"

definition hex_digit_value :: "16 word \<Rightarrow> nat" where
  "hex_digit_value c = (let n = unat c in if 48 \<le> n \<and> n \<le> 57 then n - 48 else n - 87)"

definition hex_value :: "js_string \<Rightarrow> nat" where
  "hex_value s = foldl (\<lambda>a c. 16 * a + hex_digit_value c) 0 s"

subsection \<open>Objects of the two services\<close>

text \<open>
  The fields of a framework object that the module reads: \<open>metadata.uid\<close> (\<open>None\<close>
  when it is null or undefined), \<open>spec.retryPolicy.maxRetryCount\<close>,
  \<open>status.attemptStatus.id\<close> (the field the index groups by) and \<open>message\<close> (read from
  the body of an answer that is neither 200 nor 404). \<open>state\<close> stands for the rest of
  the object.
\<close>

record framework =
  uid :: "string option"
  maxRetryCount :: int
  attemptId :: int
  state :: string
  message :: string

text \<open>\<open>{status, data}\<close>: the answer of the Kubernetes client, and what list and get return.\<close>

record 'd response =
  status :: int
  data :: 'd

text \<open>
  What a call can throw: the error of the HTTP client (\<open>error.response\<close> is set when the
  server answered), the error built by \<open>createError(status, code, message)\<close>, and the
  TypeError of reading a property of undefined.
\<close>

datatype js_error =
    RequestError string "framework response option"
  | HttpError int string string
  | TypeError string

fun error_response :: "js_error \<Rightarrow> framework response option" where
  "error_response (RequestError m r) = r"
| "error_response (HttpError s c m) = None"
| "error_response (TypeError m) = None"

definition createError :: "int \<Rightarrow> string \<Rightarrow> string \<Rightarrow> js_error" where
  "createError s c m = HttpError s c m"

text \<open>A document of the index \<open>framework\<close>: a snapshot and the time it was collected.\<close>

record doc =
  objectSnapshot :: framework
  collectTime :: int

text \<open>
  The Elasticsearch client: what \<open>cat.health()\<close> does (it throws, or answers with a
  status code), whether \<open>search\<close> throws, the documents of the index, and the number of
  buckets a terms aggregation returns when the request gives no size (the request of
  this module gives none; the default of Elasticsearch is 10).
\<close>

record es_client =
  cat_health :: "js_error + int"
  search_failure :: "js_error option"
  index :: "doc list"
  terms_size :: nat

text \<open>
  The world of one call: \<open>launcherConfig.type\<close>, the answer of
  \<open>k8sModel.getClient().get(launcherConfig.frameworkPath(key), ...)\<close> for each key, what
  \<open>JSON.stringify(response)\<close> does on an answer of that client (lines 107 and 212
  evaluate it for the log; it throws a TypeError on a circular structure, which the
  answers of the axios client are through the request object they hold), and
  \<open>elasticSearchClient\<close>, undefined (\<open>None\<close>) when ELASTICSEARCH_URI is not set.
\<close>

record world =
  launcher_type :: js_val
  k8s_get :: "js_string \<Rightarrow> js_error + framework response"
  JSON_stringify :: "framework response \<Rightarrow> js_error + string"
  elasticSearchClient :: "es_client option"

subsection \<open>Calls, with the requests they send\<close>

text \<open>The two bodies sent to \<open>search\<close>: all attempts of a uid, one attempt of a uid.\<close>

datatype es_body = AllAttempts string | OneAttempt string int

datatype event = K8sGet js_string | EsCatHealth | EsSearch es_body

text \<open>A computation: the requests sent, in order, and either the error thrown or the value.\<close>

type_synonym 'a io = "event list \<times> (js_error + 'a)"

definition ret :: "'a \<Rightarrow> 'a io" where
  "ret x = ([], Inr x)"

definition throw :: "js_error \<Rightarrow> 'a io" where
  "throw e = ([], Inl e)"

definition bind :: "'a io \<Rightarrow> ('a \<Rightarrow> 'b io) \<Rightarrow> 'b io" where
  "bind m f =
     (case m of
        (t, Inl e) \<Rightarrow> (t, Inl e)
      | (t, Inr x) \<Rightarrow> (case f x of (t', r) \<Rightarrow> (t @ t', r)))"

definition try_catch :: "'a io \<Rightarrow> (js_error \<Rightarrow> 'a io) \<Rightarrow> 'a io" where
  "try_catch m h =
     (case m of
        (t, Inl e) \<Rightarrow> (case h e of (t', r) \<Rightarrow> (t @ t', r))
      | (t, Inr x) \<Rightarrow> (t, Inr x))"

definition request :: "event \<Rightarrow> (js_error + 'a) \<Rightarrow> 'a io" where
  "request ev outcome = ([ev], outcome)"

subsection \<open>The index and its two aggregations\<close>

text \<open>
  Both request bodies filter the documents with the term
  \<open>objectSnapshot.metadata.uid.keyword = uid\<close>.
\<close>

definition uid_filter :: "string \<Rightarrow> doc list \<Rightarrow> doc list" where
  "uid_filter u ds = filter (\<lambda>d. uid (objectSnapshot d) = Some u) ds"

text \<open>
  \<open>top_hits\<close> with \<open>sort: collectTime desc\<close> and \<open>size: 1\<close>: the document collected
  last (the first of them in the index, when several share that time); no hit for no
  document.
\<close>

definition later_doc :: "doc \<Rightarrow> doc \<Rightarrow> doc" where
  "later_doc best d = (if collectTime best < collectTime d then d else best)"

fun collectTime_latest_hits :: "doc list \<Rightarrow> doc list" where
  "collectTime_latest_hits [] = []"
| "collectTime_latest_hits (d # ds) = [foldl later_doc d ds]"

text \<open>
  The keys of the terms aggregation on \<open>objectSnapshot.status.attemptStatus.id\<close> with
  \<open>order: _key desc\<close>: the distinct attempt ids, the largest first, cut at the number of
  buckets the service returns.
\<close>

definition bucket_keys :: "nat \<Rightarrow> doc list \<Rightarrow> int list" where
  "bucket_keys n ds = take n (rev (sort (remdups (map (\<lambda>d. attemptId (objectSnapshot d)) ds))))"

text \<open>
  \<open>aggregations.attemptID_group.buckets\<close> of the all-attempts request (lines 118-153):
  for each key the hits of \<open>collectTime_latest_hits\<close> among the documents of that key.
\<close>

definition attemptID_group_buckets :: "es_client \<Rightarrow> string \<Rightarrow> doc list list" where
  "attemptID_group_buckets c u =
     (let ds = uid_filter u (index c)
      in map (\<lambda>k. collectTime_latest_hits (filter (\<lambda>d. attemptId (objectSnapshot d) = k) ds))
           (bucket_keys (terms_size c) ds))"

text \<open>
  \<open>aggregations.attemptID_group.collectTime_latest_hits.hits.hits\<close> of the one-attempt
  request (lines 223-257): the filter aggregation on the attempt id, then the top hit.
\<close>

definition attemptID_group_hits :: "es_client \<Rightarrow> string \<Rightarrow> int \<Rightarrow> doc list" where
  "attemptID_group_hits c u i =
     collectTime_latest_hits
       (filter (\<lambda>d. attemptId (objectSnapshot d) = i) (uid_filter u (index c)))"

text \<open>
  \<open>await elasticSearchClient.search({index: 'framework', body})\<close>: a TypeError before any
  request when the client is undefined; otherwise the request is sent, and it throws or
  answers with the aggregation \<open>answer\<close> computes from the index.
\<close>

definition search :: "world \<Rightarrow> es_body \<Rightarrow> (es_client \<Rightarrow> 'a) \<Rightarrow> 'a io" where
  "search w body answer =
     (case elasticSearchClient w of
        None \<Rightarrow> throw (TypeError ''Cannot read property search of undefined'')
      | Some c \<Rightarrow>
          request (EsSearch body)
            (case search_failure c of Some e \<Rightarrow> Inl e | None \<Rightarrow> Inr (answer c)))"

subsection \<open>healthCheck (lines 51-70)\<close>

text \<open>
  The first test is written \<open>launcherConfig.type === 'yarn' === 'yarn'\<close>: the boolean
  of the first comparison is compared with the string. Writing to the log has no effect
  on the result and is left out here and below; what the argument of a logger call
  evaluates is kept where it can throw out of the function. \<open>JSON.stringify(result)\<close>
  of line 62 cannot: it stands inside the try block, and the result is false whether it
  throws or not.
\<close>

definition healthCheck :: "world \<Rightarrow> bool io" where
  "healthCheck w =
     (if strict_eq (JBool (strict_eq (launcher_type w) (JStr ''yarn''))) (JStr ''yarn'')
      then ret False
      else (case elasticSearchClient w of
              None \<Rightarrow> ret False
            | Some c \<Rightarrow>
                try_catch
                  (bind (request EsCatHealth (cat_health c))
                     (\<lambda>statusCode. if statusCode = 200 then ret True else ret False))
                  (\<lambda>e. ret False)))"

subsection \<open>list and get (lines 73-284)\<close>

text \<open>
  An entry of the answer: \<open>{...(await convertToJobAttempt(framework)), isLatest: b}\<close>.
\<close>

record 's attempt =
  detail :: 's
  isLatest :: bool

text \<open>
  Lines 83-97 and 191-205: the framework is read from the Kubernetes API under the encoded
  name; a thrown error that carries a response is turned into that response, any other
  error is thrown again.
\<close>

definition get_framework :: "js_runtime \<Rightarrow> world \<Rightarrow> js_string \<Rightarrow> framework response io" where
  "get_framework rt w frameworkName =
     try_catch
       (request (K8sGet (encodeName rt frameworkName)) (k8s_get w (encodeName rt frameworkName)))
       (\<lambda>error. case error_response error of Some r \<Rightarrow> ret r | None \<Rightarrow> throw error)"

text \<open>
  Line 166, \<open>bucket.collectTime_latest_hits.hits.hits[0]._source.objectSnapshot\<close>, for
  each bucket in order: reading \<open>_source\<close> of a missing first hit is a TypeError.
\<close>

fun retryFrameworks :: "doc list list \<Rightarrow> js_error + framework list" where
  "retryFrameworks [] = Inr []"
| "retryFrameworks (hits # buckets) =
     (case hits of
        [] \<Rightarrow> Inl (TypeError ''Cannot read property _source of undefined'')
      | h # rest \<Rightarrow>
          (case retryFrameworks buckets of
             Inl e \<Rightarrow> Inl e
           | Inr fs \<Rightarrow> Inr (objectSnapshot h # fs)))"

text \<open>
  \<open>list\<close> and \<open>get\<close>. The guard of lines 74 and 184 is \<open>!healthCheck\<close>: it negates
  the function object, healthCheck is not called. On status 404 the argument of
  \<open>logger.warn\<close> (lines 107 and 212) evaluates \<open>JSON.stringify(response)\<close> before the
  return.
\<close>

definition list :: "js_runtime \<Rightarrow> (framework \<Rightarrow> 's) \<Rightarrow> world \<Rightarrow> js_string
    \<Rightarrow> 's attempt list option response io" where
  "list rt convertToJobAttempt w frameworkName =
     (if \<not> truthy (JFunction ''healthCheck'') then ret \<lparr>status = 501, data = None\<rparr>
      else
        bind (get_framework rt w frameworkName) (\<lambda>response.
          if status response = 200 then
            (let attemptData = [\<lparr>detail = convertToJobAttempt (data response), isLatest = True\<rparr>]
             in case uid (data response) of
                  None \<Rightarrow> ret \<lparr>status = 404, data = None\<rparr>
                | Some u \<Rightarrow>
                    bind (search w (AllAttempts u) (\<lambda>c. attemptID_group_buckets c u)) (\<lambda>buckets.
                      if buckets = [] then ret \<lparr>status = 404, data = None\<rparr>
                      else
                        bind ([], retryFrameworks buckets) (\<lambda>fs.
                          ret \<lparr>status = 200,
                               data = Some (attemptData @
                                 map (\<lambda>f. \<lparr>detail = convertToJobAttempt f, isLatest = False\<rparr>) fs)\<rparr>)))
          else if status response = 404 then
            bind ([], JSON_stringify w response) (\<lambda>text. ret \<lparr>status = 404, data = None\<rparr>)
          else throw (createError (status response) ''UnknownError'' (message (data response)))))"

definition get :: "js_runtime \<Rightarrow> (framework \<Rightarrow> 's) \<Rightarrow> world \<Rightarrow> js_string \<Rightarrow> int
    \<Rightarrow> 's attempt option response io" where
  "get rt convertToJobAttempt w frameworkName jobAttemptIndex =
     (if \<not> truthy (JFunction ''healthCheck'') then ret \<lparr>status = 501, data = None\<rparr>
      else
        bind (get_framework rt w frameworkName) (\<lambda>response.
          if status response = 200 then
            (let attemptFramework = data response
             in if jobAttemptIndex < maxRetryCount attemptFramework then
                  (case uid (data response) of
                     None \<Rightarrow> ret \<lparr>status = 404, data = None\<rparr>
                   | Some u \<Rightarrow>
                       bind (search w (OneAttempt u jobAttemptIndex)
                               (\<lambda>c. attemptID_group_hits c u jobAttemptIndex)) (\<lambda>buckets.
                         case buckets of
                           [] \<Rightarrow> ret \<lparr>status = 404, data = None\<rparr>
                         | h # rest \<Rightarrow>
                             ret \<lparr>status = 200,
                                  data = Some \<lparr>detail = convertToJobAttempt (objectSnapshot h),
                                               isLatest = False\<rparr>\<rparr>))
                else if jobAttemptIndex = maxRetryCount attemptFramework then
                  ret \<lparr>status = 200,
                       data = Some \<lparr>detail = convertToJobAttempt attemptFramework, isLatest = True\<rparr>\<rparr>
                else ret \<lparr>status = 404, data = None\<rparr>)
          else if status response = 404 then
            bind ([], JSON_stringify w response) (\<lambda>text. ret \<lparr>status = 404, data = None\<rparr>)
          else throw (createError (status response) ''UnknownError'' (message (data response)))))"

subsection \<open>Example worlds\<close>

text \<open>
  The runtime of the examples. Its lower-casing agrees with \<open>toLowerCase\<close> on strings
  of the code units it treats: Basic Latin, Latin-1 (U+00C0 to U+00DE without U+00D7 move
  32 up), U+0130 (which becomes \<open>i\<close> and U+0307) and U+212A (the Kelvin sign, which
  becomes \<open>k\<close>); every other code unit is left as it is. Its digest is a stand-in with
  two values, not MD5.
\<close>

definition example_toLowerCase_unit :: "16 word \<Rightarrow> js_string" where
  "example_toLowerCase_unit c =
     (let n = unat c
      in if (65 \<le> n \<and> n \<le> 90) \<or> (192 \<le> n \<and> n \<le> 222 \<and> n \<noteq> 215) then [c + 32]
         else if n = 304 then [105, 775]
         else if n = 8490 then [107]
         else [c])"

definition example_toLowerCase :: "js_string \<Rightarrow> js_string" where
  "example_toLowerCase s = concat (map example_toLowerCase_unit s)"

definition example_md5 :: "js_string \<Rightarrow> 128 word" where
  "example_md5 s =
     (if s = js ''alice~Train'' then 0x0123456789abcdeffedcba9876543210 else 0xff)"

definition example_runtime :: js_runtime where
  "example_runtime = \<lparr>toLowerCase = example_toLowerCase, md5 = example_md5\<rparr>"

text \<open>
  A framework with uid \<open>u-42\<close> and \<open>maxRetryCount = 3\<close>, running its attempt 3, and
  snapshots of its attempts 0, 1 and 2 in the index, two for each attempt, beside a
  snapshot of another framework.
\<close>

definition example_snapshot :: "int \<Rightarrow> string \<Rightarrow> framework" where
  "example_snapshot i st =
     \<lparr>uid = Some ''u-42'', maxRetryCount = 3, attemptId = i, state = st, message = []\<rparr>"

definition example_live :: framework where
  "example_live = example_snapshot 3 ''RUNNING''"

definition example_index :: "doc list" where
  "example_index =
     [\<lparr>objectSnapshot = example_snapshot 0 ''RUNNING'', collectTime = 10\<rparr>,
      \<lparr>objectSnapshot = example_snapshot 0 ''FAILED'', collectTime = 20\<rparr>,
      \<lparr>objectSnapshot = example_snapshot 1 ''RUNNING'', collectTime = 30\<rparr>,
      \<lparr>objectSnapshot = example_snapshot 1 ''FAILED'', collectTime = 40\<rparr>,
      \<lparr>objectSnapshot = example_snapshot 2 ''FAILED'', collectTime = 60\<rparr>,
      \<lparr>objectSnapshot = example_snapshot 2 ''RUNNING'', collectTime = 50\<rparr>,
      \<lparr>objectSnapshot = \<lparr>uid = Some ''u-7'', maxRetryCount = 9, attemptId = 5,
                          state = ''FAILED'', message = []\<rparr>, collectTime = 70\<rparr>]"

definition example_es :: es_client where
  "example_es =
     \<lparr>cat_health = Inr 200, search_failure = None, index = example_index, terms_size = 10\<rparr>"

text \<open>
  The Kubernetes API of the examples: \<open>job1\<close> is the framework above, \<open>nouid\<close> a
  framework without uid, \<open>broken\<close> is answered with 500, \<open>offline\<close> fails without an
  answer, and every other key is answered with 404. The HTTP client throws for every
  answer that is not a success, and its answers are circular structures.
\<close>

definition example_status :: "string \<Rightarrow> framework" where
  "example_status m = \<lparr>uid = None, maxRetryCount = 0, attemptId = 0, state = [], message = m\<rparr>"

definition example_k8s :: "js_string \<Rightarrow> js_error + framework response" where
  "example_k8s key =
     (if key = js ''job1'' then Inr \<lparr>status = 200, data = example_live\<rparr>
      else if key = js ''nouid'' then Inr \<lparr>status = 200, data = example_live\<lparr>uid := None\<rparr>\<rparr>
      else if key = js ''broken'' then
        Inl (RequestError ''Request failed with status code 500''
               (Some \<lparr>status = 500, data = example_status ''etcd unavailable''\<rparr>))
      else if key = js ''offline'' then Inl (RequestError ''connect ECONNREFUSED'' None)
      else
        Inl (RequestError ''Request failed with status code 404''
               (Some \<lparr>status = 404, data = example_status ''not found''\<rparr>)))"

definition example_world :: world where
  "example_world =
     \<lparr>launcher_type = JStr ''k8s'', k8s_get = example_k8s,
      JSON_stringify = (\<lambda>response. Inl (TypeError ''Converting circular structure to JSON'')),
      elasticSearchClient = Some example_es\<rparr>"

section \<open>Properties\<close>

subsection \<open>Name encoding\<close>

lemma convertName_alnum: "list_all is_a_z0_9 (convertName rt s)"
  by (simp add: convertName_def list_all_iff)

lemma hex_digit_is_hex: "is_hex (hex_digit n)"
proof -
  have "list_all (\<lambda>k. is_hex (hex_digit k)) [0..<16]"
    by code_simp
  then have "\<forall>k<16. is_hex (hex_digit k)"
    by (simp add: list_all_iff)
  moreover have "n mod 16 < 16" by simp
  moreover have "hex_digit n = hex_digit (n mod 16)"
    by (simp add: hex_digit_def)
  ultimately show ?thesis by simp
qed

lemma digest_hex_length: "length (digest_hex d) = 32"
  by (simp add: digest_hex_def)

lemma digest_hex_is_hex: "list_all is_hex (digest_hex d)"
  by (simp add: digest_hex_def list_all_iff hex_digit_is_hex)

lemma replace_leading_unknown_append: "replace_leading_unknown (js ''unknown'' @ rest) = rest"
  by (simp add: replace_leading_unknown_def startsWith_def)

lemma startsWith_unknown_iff:
  "startsWith name (js ''unknown'') \<longleftrightarrow> (\<exists>rest. name = js ''unknown'' @ rest)"
  unfolding startsWith_def
  by (metis append_eq_conv_conj)

text \<open>The hexadecimal form of a digest denotes the digest.\<close>

lemma hex_digit_value_hex_digit: "k < 16 \<Longrightarrow> hex_digit_value (hex_digit k) = k"
proof -
  have "list_all (\<lambda>k. hex_digit_value (hex_digit k) = k) [0..<16]"
    by code_simp
  then show "k < 16 \<Longrightarrow> hex_digit_value (hex_digit k) = k"
    by (simp add: list_all_iff)
qed

lemma hex_value_snoc: "hex_value (xs @ [c]) = 16 * hex_value xs + hex_digit_value c"
  by (simp add: hex_value_def)

lemma hex_value_digits:
  "hex_value (map (\<lambda>i. hex_digit ((n div 16 ^ (k - 1 - i)) mod 16)) [0..<k]) = n mod 16 ^ k"
proof (induction k arbitrary: n)
  case 0
  show ?case by (simp add: hex_value_def)
next
  case (Suc k)
  have "map (\<lambda>i. hex_digit ((n div 16 ^ (Suc k - 1 - i)) mod 16)) [0..<k]
      = map (\<lambda>i. hex_digit (((n div 16) div 16 ^ (k - 1 - i)) mod 16)) [0..<k]"
  proof (rule map_cong [OF refl])
    fix i assume "i \<in> set [0..<k]"
    then have "i < k" by simp
    then have "Suc k - 1 - i = Suc (k - 1 - i)" by simp
    then show "hex_digit ((n div 16 ^ (Suc k - 1 - i)) mod 16)
        = hex_digit (((n div 16) div 16 ^ (k - 1 - i)) mod 16)"
      by (simp add: div_mult2_eq)
  qed
  then have "map (\<lambda>i. hex_digit ((n div 16 ^ (Suc k - 1 - i)) mod 16)) [0..<Suc k]
      = map (\<lambda>i. hex_digit (((n div 16) div 16 ^ (k - 1 - i)) mod 16)) [0..<k]
        @ [hex_digit (n mod 16)]"
    by simp
  then have "hex_value (map (\<lambda>i. hex_digit ((n div 16 ^ (Suc k - 1 - i)) mod 16)) [0..<Suc k])
      = 16 * hex_value (map (\<lambda>i. hex_digit (((n div 16) div 16 ^ (k - 1 - i)) mod 16)) [0..<k])
        + hex_digit_value (hex_digit (n mod 16))"
    by (simp only: hex_value_snoc)
  also have "\<dots> = 16 * ((n div 16) mod 16 ^ k) + n mod 16"
    by (simp only: Suc.IH [of "n div 16"]) (simp add: hex_digit_value_hex_digit)
  also have "\<dots> = n mod 16 ^ Suc k"
    by (simp add: mod_mult2_eq)
  finally show ?case .
qed

lemma unat_nibble: "unat (drop_bit m (d :: 128 word) AND 15) = (unat d div 2 ^ m) mod 16"
proof -
  have "(15 :: 128 word) = mask 4" by (simp add: mask_eq_exp_minus_1)
  then have "drop_bit m d AND 15 = take_bit 4 (drop_bit m d)"
    by (simp only: take_bit_eq_mask)
  then have "unat (drop_bit m d AND 15) = take_bit 4 (drop_bit m (unat d))"
    by (simp only: unsigned_take_bit_eq unat_drop_bit_eq)
  also have "\<dots> = (unat d div 2 ^ m) mod 16"
    by (simp add: take_bit_eq_mod drop_bit_eq_div)
  finally show ?thesis .
qed

lemma hex_value_digest_hex: "hex_value (digest_hex d) = unat d"
proof -
  have "digest_hex d = map (\<lambda>i. hex_digit ((unat d div 16 ^ (32 - 1 - i)) mod 16)) [0..<32]"
    unfolding digest_hex_def
  proof (rule map_cong [OF refl])
    fix i assume "i \<in> set [0..<32]"
    have "(2::nat) ^ (4 * (31 - i)) = (2 ^ 4) ^ (31 - i)"
      by (rule power_mult)
    then have p: "(2::nat) ^ (4 * (31 - i)) = 16 ^ (31 - i)"
      by simp
    show "hex_digit (unat (drop_bit (4 * (31 - i)) d AND 15))
        = hex_digit ((unat d div 16 ^ (32 - 1 - i)) mod 16)"
      by (simp only: unat_nibble p) simp
  qed
  then have v: "hex_value (digest_hex d) = unat d mod 16 ^ 32"
    by (simp only: hex_value_digits)
  have "(16::nat) ^ 32 = (2 ^ 4) ^ 32" by simp
  also have "\<dots> = 2 ^ (4 * 32)" by (rule power_mult [symmetric])
  finally have "(16::nat) ^ 32 = 2 ^ LENGTH(128)" by simp
  moreover have "unat d < 2 ^ LENGTH(128)"
    by (rule unsigned_less)
  ultimately have "unat d mod 16 ^ 32 = unat d"
    by (simp only: mod_less)
  with v show ?thesis by (simp only:)
qed

text \<open>Literals, and the evaluation of the example runtime.\<close>

lemma js_unknown: "js ''unknown'' = [117, 110, 107, 110, 111, 119, 110]"
  by (simp add: js_def code_unit_def)

lemma code_unit_tilde: "code_unit (CHR ''~'') = 126"
  by (simp add: code_unit_def)

lemma js_keys:
  "js ''job1'' = [106, 111, 98, 49]"
  "js ''gone'' = [103, 111, 110, 101]"
  "js ''broken'' = [98, 114, 111, 107, 101, 110]"
  "js ''offline'' = [111, 102, 102, 108, 105, 110, 101]"
  "js ''nouid'' = [110, 111, 117, 105, 100]"
  by (simp_all add: js_def code_unit_def)

lemmas encodeName_example =
  encodeName_def startsWith_def includes_char_def convertName_def replace_leading_unknown_def
  example_runtime_def example_toLowerCase_def example_toLowerCase_unit_def is_a_z0_9_def
  js_unknown code_unit_tilde

lemma js_examples:
  "js ''unknownJob~1_A'' = js ''unknown'' @ js ''Job~1_A''"
  "js ''Job~1_A'' = [74, 111, 98, 126, 49, 95, 65]"
  "js ''job1a'' = [106, 111, 98, 49, 97]"
  "js ''kix'' = [107, 105, 120]"
  "js ''alice~Train'' = [97, 108, 105, 99, 101, 126, 84, 114, 97, 105, 110]"
  "js ''bob~Train'' = [98, 111, 98, 126, 84, 114, 97, 105, 110]"
  by (simp_all add: js_def code_unit_def)

lemma digest_hex_examples:
  "digest_hex 0x0123456789abcdeffedcba9876543210 = js ''0123456789abcdeffedcba9876543210''"
  "digest_hex 0xff = js ''000000000000000000000000000000ff''"
  by code_simp+

text \<open>
  C9. \<open>encodeName\<close> is a function of the name alone (and of the two built-in functions),
  defined for every string of UTF-16 code units. For a name that starts with \<open>unknown\<close>
  or holds no \<open>~\<close> the result is the name without one leading \<open>unknown\<close>, lower-cased,
  with every character outside \<open>[a-z0-9]\<close> removed, so it matches \<open>[a-z0-9]*\<close>; for
  every other name it is the digest of the name in hexadecimal: 32 characters of
  \<open>[0-9a-f]\<close> that denote the number of the digest.
\<close>

theorem encodeName_shape:
  "(\<forall>rest. name = js ''unknown'' @ rest \<longrightarrow>
      encodeName rt name = filter is_a_z0_9 (toLowerCase rt rest))
   \<and> (\<not> startsWith name (js ''unknown'') \<and> \<not> includes_char name (code_unit (CHR ''~'')) \<longrightarrow>
      encodeName rt name = filter is_a_z0_9 (toLowerCase rt name))
   \<and> (startsWith name (js ''unknown'') \<or> \<not> includes_char name (code_unit (CHR ''~'')) \<longrightarrow>
      list_all is_a_z0_9 (encodeName rt name))
   \<and> (\<not> startsWith name (js ''unknown'') \<and> includes_char name (code_unit (CHR ''~'')) \<longrightarrow>
      length (encodeName rt name) = 32
      \<and> list_all is_hex (encodeName rt name)
      \<and> hex_value (encodeName rt name) = unat (md5 rt name))"
proof (intro conjI allI impI)
  fix rest assume h: "name = js ''unknown'' @ rest"
  have s: "startsWith name (js ''unknown'')"
    using h startsWith_unknown_iff by blast
  have r: "replace_leading_unknown name = rest"
    by (simp only: h replace_leading_unknown_append)
  show "encodeName rt name = filter is_a_z0_9 (toLowerCase rt rest)"
    by (simp only: encodeName_def convertName_def s r simp_thms if_True)
next
  assume "\<not> startsWith name (js ''unknown'') \<and> \<not> includes_char name (code_unit (CHR ''~''))"
  then show "encodeName rt name = filter is_a_z0_9 (toLowerCase rt name)"
    by (simp add: encodeName_def convertName_def replace_leading_unknown_def)
next
  assume "startsWith name (js ''unknown'') \<or> \<not> includes_char name (code_unit (CHR ''~''))"
  then show "list_all is_a_z0_9 (encodeName rt name)"
    by (simp add: encodeName_def convertName_alnum)
next
  assume h: "\<not> startsWith name (js ''unknown'') \<and> includes_char name (code_unit (CHR ''~''))"
  then have e: "encodeName rt name = digest_hex (md5 rt name)"
    by (simp add: encodeName_def)
  show "length (encodeName rt name) = 32"
    by (simp only: e digest_hex_length)
  show "list_all is_hex (encodeName rt name)"
    by (simp only: e digest_hex_is_hex)
  show "hex_value (encodeName rt name) = unat (md5 rt name)"
    by (simp only: e hex_value_digest_hex)
qed

text \<open>
  Concrete names: a leading \<open>unknown\<close>; the Kelvin sign, U+0130 and \<open>X\<close>, which
  become \<open>kix\<close>; and two names with \<open>~\<close> and different digests.
\<close>

theorem encodeName_shape_witness:
  "encodeName example_runtime (js ''unknownJob~1_A'') = js ''job1a''
   \<and> encodeName example_runtime [8490, 304, 88] = js ''kix''
   \<and> list_all is_a_z0_9 (encodeName example_runtime [8490, 304, 88])
   \<and> encodeName example_runtime (js ''alice~Train'') = js ''0123456789abcdeffedcba9876543210''
   \<and> hex_value (encodeName example_runtime (js ''alice~Train''))
       = unat (0x0123456789abcdeffedcba9876543210 :: 128 word)
   \<and> encodeName example_runtime (js ''bob~Train'') = js ''000000000000000000000000000000ff''
   \<and> length (encodeName example_runtime (js ''bob~Train'')) = 32"
proof -
  have a: "encodeName example_runtime (js ''unknownJob~1_A'')
      = filter is_a_z0_9 (toLowerCase example_runtime (js ''Job~1_A''))"
    using encodeName_shape [of "js ''unknownJob~1_A''" example_runtime] js_examples(1) by blast
  have a': "filter is_a_z0_9 (toLowerCase example_runtime (js ''Job~1_A'')) = js ''job1a''"
    by (simp add: encodeName_example js_examples(2,3))
  have n: "\<not> startsWith [8490, 304, 88] (js ''unknown'')
      \<and> \<not> includes_char [8490, 304, 88] (code_unit (CHR ''~''))"
    by (simp add: encodeName_example)
  have b: "encodeName example_runtime [8490, 304, 88]
      = filter is_a_z0_9 (toLowerCase example_runtime [8490, 304, 88])"
     and b': "list_all is_a_z0_9 (encodeName example_runtime [8490, 304, 88])"
    using encodeName_shape [of "[8490, 304, 88]" example_runtime] n by blast+
  have b'': "filter is_a_z0_9 (toLowerCase example_runtime [8490, 304, 88]) = js ''kix''"
    by (simp add: encodeName_example js_examples(4))
  have m: "\<not> startsWith (js ''alice~Train'') (js ''unknown'')
      \<and> includes_char (js ''alice~Train'') (code_unit (CHR ''~''))"
    by (simp add: encodeName_example js_examples(5))
  have c: "hex_value (encodeName example_runtime (js ''alice~Train''))
      = unat (md5 example_runtime (js ''alice~Train''))"
    using encodeName_shape [of "js ''alice~Train''" example_runtime] m by blast
  have c': "md5 example_runtime (js ''alice~Train'') = 0x0123456789abcdeffedcba9876543210"
    by (simp add: example_runtime_def example_md5_def)
  have c'': "encodeName example_runtime (js ''alice~Train'')
      = js ''0123456789abcdeffedcba9876543210''"
    using m by (simp add: encodeName_def c' digest_hex_examples)
  have k: "\<not> startsWith (js ''bob~Train'') (js ''unknown'')
      \<and> includes_char (js ''bob~Train'') (code_unit (CHR ''~''))"
    by (simp add: encodeName_example js_examples(6))
  have d: "length (encodeName example_runtime (js ''bob~Train'')) = 32"
    using encodeName_shape [of "js ''bob~Train''" example_runtime] k by blast
  have d0: "md5 example_runtime (js ''bob~Train'') = 0xff"
    by (simp add: example_runtime_def example_md5_def js_examples(5,6))
  have d': "encodeName example_runtime (js ''bob~Train'') = js ''000000000000000000000000000000ff''"
    using k by (simp add: encodeName_def d0 digest_hex_examples)
  show ?thesis
    using a a' b b' b'' c c' c'' d d' by (simp only: simp_thms)
qed

subsection \<open>healthCheck\<close>

lemma healthCheck_cases:
  "healthCheck w =
     (case elasticSearchClient w of
        None \<Rightarrow> ([], Inr False)
      | Some c \<Rightarrow> ([EsCatHealth], Inr (cat_health c = Inr 200)))"
  by (cases "cat_health (the (elasticSearchClient w))")
     (auto simp: healthCheck_def strict_eq_def ret_def bind_def try_catch_def request_def
           split: option.splits sum.splits)

text \<open>
  C8. \<open>healthCheck\<close> never throws: whatever the world, it returns a boolean; an error
  thrown by the probe \<open>cat.health()\<close> and an answer of the probe with a status code other
  than 200 both give \<open>false\<close>.
\<close>

theorem healthCheck_never_throws:
  "(\<exists>b. snd (healthCheck w) = Inr b)
   \<and> (\<forall>c e. elasticSearchClient w = Some c \<and> cat_health c = Inl e \<longrightarrow>
         snd (healthCheck w) = Inr False)
   \<and> (\<forall>c s. elasticSearchClient w = Some c \<and> cat_health c = Inr s \<and> s \<noteq> 200 \<longrightarrow>
         snd (healthCheck w) = Inr False)"
  by (auto simp: healthCheck_cases split: option.splits)

text \<open>A probe that throws and a probe answered with 503.\<close>

theorem healthCheck_never_throws_witness:
  "snd (healthCheck (example_world\<lparr>elasticSearchClient :=
          Some (example_es\<lparr>cat_health := Inl (RequestError ''timeout'' None)\<rparr>)\<rparr>)) = Inr False
   \<and> snd (healthCheck (example_world\<lparr>elasticSearchClient :=
          Some (example_es\<lparr>cat_health := Inr 503\<rparr>)\<rparr>)) = Inr False"
proof -
  let ?c1 = "example_es\<lparr>cat_health := Inl (RequestError ''timeout'' None)\<rparr>"
  let ?c2 = "example_es\<lparr>cat_health := Inr 503\<rparr>"
  have a: "snd (healthCheck (example_world\<lparr>elasticSearchClient := Some ?c1\<rparr>)) = Inr False"
    using healthCheck_never_throws [of "example_world\<lparr>elasticSearchClient := Some ?c1\<rparr>"]
    by simp
  have b: "snd (healthCheck (example_world\<lparr>elasticSearchClient := Some ?c2\<rparr>)) = Inr False"
    using healthCheck_never_throws [of "example_world\<lparr>elasticSearchClient := Some ?c2\<rparr>"]
    by simp
  show ?thesis using a b by simp
qed

text \<open>
  C3. The claim: \<open>healthCheck\<close> returns false whenever the launcher type is \<open>yarn\<close>,
  whatever the state of the Elasticsearch client. The code: the test compares a boolean
  with the string \<open>yarn\<close> and is never true, so with the launcher type \<open>yarn\<close>, a
  configured client and a healthy index, \<open>healthCheck\<close> probes the index and returns
  true.
\<close>

theorem healthCheck_yarn_reports_available:
  "\<not> strict_eq (JBool (strict_eq (JStr ''yarn'') (JStr ''yarn''))) (JStr ''yarn'')
   \<and> healthCheck (example_world\<lparr>launcher_type := JStr ''yarn''\<rparr>) = ([EsCatHealth], Inr True)"
  by (simp add: strict_eq_def healthCheck_cases example_world_def example_es_def)

text \<open>The launcher type has no influence on the result at all.\<close>

lemma healthCheck_ignores_launcher_type:
  "healthCheck (w\<lparr>launcher_type := t\<rparr>) = healthCheck w"
  by (simp add: healthCheck_cases)

subsection \<open>The read of the live framework\<close>

text \<open>The read of the live framework sends one request and classifies its outcome.\<close>

lemma get_framework_cases:
  "get_framework rt w n =
     ([K8sGet (encodeName rt n)],
      case k8s_get w (encodeName rt n) of
        Inr r \<Rightarrow> Inr r
      | Inl e \<Rightarrow> (case error_response e of Some r \<Rightarrow> Inr r | None \<Rightarrow> Inl e))"
  by (simp add: get_framework_def try_catch_def request_def ret_def throw_def
           split: sum.splits option.splits)

lemma get_framework_answered:
  assumes "k8s_get w (encodeName rt n) = Inr r
           \<or> k8s_get w (encodeName rt n) = Inl (RequestError m (Some r))"
  shows "get_framework rt w n = ([K8sGet (encodeName rt n)], Inr r)"
  using assms by (auto simp: get_framework_cases)

lemma get_framework_rethrown:
  assumes "k8s_get w (encodeName rt n) = Inl e" and "error_response e = None"
  shows "get_framework rt w n = ([K8sGet (encodeName rt n)], Inl e)"
  using assms by (simp add: get_framework_cases)

text \<open>\<open>list\<close> and \<open>get\<close> after the read of the live framework, branch by branch.\<close>

lemma list_after_fetch:
  assumes "get_framework rt w n = (t, Inr r)"
  shows "list rt cv w n =
     (if status r = 200 then
        (case uid (data r) of
           None \<Rightarrow> (t, Inr \<lparr>status = 404, data = None\<rparr>)
         | Some u \<Rightarrow>
            (case elasticSearchClient w of
               None \<Rightarrow> (t, Inl (TypeError ''Cannot read property search of undefined''))
             | Some c \<Rightarrow>
                (case search_failure c of
                   Some e \<Rightarrow> (t @ [EsSearch (AllAttempts u)], Inl e)
                 | None \<Rightarrow>
                     if attemptID_group_buckets c u = []
                     then (t @ [EsSearch (AllAttempts u)], Inr \<lparr>status = 404, data = None\<rparr>)
                     else (case retryFrameworks (attemptID_group_buckets c u) of
                             Inl e \<Rightarrow> (t @ [EsSearch (AllAttempts u)], Inl e)
                           | Inr fs \<Rightarrow>
                               (t @ [EsSearch (AllAttempts u)],
                                Inr \<lparr>status = 200,
                                     data = Some (\<lparr>detail = cv (data r), isLatest = True\<rparr> #
                                       map (\<lambda>f. \<lparr>detail = cv f, isLatest = False\<rparr>) fs)\<rparr>)))))
      else if status r = 404 then
        (case JSON_stringify w r of
           Inl e \<Rightarrow> (t, Inl e)
         | Inr text \<Rightarrow> (t, Inr \<lparr>status = 404, data = None\<rparr>))
      else (t, Inl (HttpError (status r) ''UnknownError'' (message (data r)))))"
  using assms
  by (simp add: list_def bind_def ret_def throw_def search_def request_def createError_def
           split: option.splits sum.splits)

lemma list_fetch_failed:
  assumes "get_framework rt w n = (t, Inl e)"
  shows "list rt cv w n = (t, Inl e)"
  using assms by (simp add: list_def bind_def)

lemma get_after_fetch:
  assumes "get_framework rt w n = (t, Inr r)"
  shows "get rt cv w n i =
     (if status r = 200 then
        (if i < maxRetryCount (data r) then
           (case uid (data r) of
              None \<Rightarrow> (t, Inr \<lparr>status = 404, data = None\<rparr>)
            | Some u \<Rightarrow>
               (case elasticSearchClient w of
                  None \<Rightarrow> (t, Inl (TypeError ''Cannot read property search of undefined''))
                | Some c \<Rightarrow>
                   (case search_failure c of
                      Some e \<Rightarrow> (t @ [EsSearch (OneAttempt u i)], Inl e)
                    | None \<Rightarrow>
                       (case attemptID_group_hits c u i of
                          [] \<Rightarrow> (t @ [EsSearch (OneAttempt u i)], Inr \<lparr>status = 404, data = None\<rparr>)
                        | h # rest \<Rightarrow>
                           (t @ [EsSearch (OneAttempt u i)],
                            Inr \<lparr>status = 200,
                                 data = Some \<lparr>detail = cv (objectSnapshot h), isLatest = False\<rparr>\<rparr>)))))
         else if i = maxRetryCount (data r) then
           (t, Inr \<lparr>status = 200, data = Some \<lparr>detail = cv (data r), isLatest = True\<rparr>\<rparr>)
         else (t, Inr \<lparr>status = 404, data = None\<rparr>))
      else if status r = 404 then
        (case JSON_stringify w r of
           Inl e \<Rightarrow> (t, Inl e)
         | Inr text \<Rightarrow> (t, Inr \<lparr>status = 404, data = None\<rparr>))
      else (t, Inl (HttpError (status r) ''UnknownError'' (message (data r)))))"
  using assms
  by (simp add: get_def bind_def ret_def throw_def search_def request_def createError_def Let_def
           split: option.splits sum.splits list.splits)

lemma get_fetch_failed:
  assumes "get_framework rt w n = (t, Inl e)"
  shows "get rt cv w n i = (t, Inl e)"
  using assms by (simp add: get_def bind_def)

subsection \<open>The aggregations of the index\<close>

text \<open>The top hit is a document of the list with the latest collection time.\<close>

lemma foldl_later_doc:
  "foldl later_doc d ds \<in> set (d # ds)
   \<and> (\<forall>x\<in>set (d # ds). collectTime x \<le> collectTime (foldl later_doc d ds))"
proof (induction ds arbitrary: d)
  case Nil
  show ?case by simp
next
  case (Cons a ds)
  have ih: "foldl later_doc (later_doc d a) ds \<in> set (later_doc d a # ds)
     \<and> (\<forall>x\<in>set (later_doc d a # ds).
           collectTime x \<le> collectTime (foldl later_doc (later_doc d a) ds))"
    by (rule Cons.IH)
  show ?case
  proof (cases "collectTime d < collectTime a")
    case True
    then have "later_doc d a = a" by (simp add: later_doc_def)
    with ih True show ?thesis by auto
  next
    case False
    then have "later_doc d a = d" by (simp add: later_doc_def)
    with ih False show ?thesis by auto
  qed
qed

lemma collectTime_latest_hits_single:
  assumes "ds \<noteq> []"
  shows "\<exists>d. collectTime_latest_hits ds = [d] \<and> d \<in> set ds
           \<and> (\<forall>x\<in>set ds. collectTime x \<le> collectTime d)"
proof (cases ds)
  case Nil
  with assms show ?thesis by simp
next
  case (Cons a as)
  then show ?thesis using foldl_later_doc [of a as] by simp
qed

lemma collectTime_latest_hits_empty_iff: "collectTime_latest_hits ds = [] \<longleftrightarrow> ds = []"
  by (cases ds) simp_all

text \<open>The keys of the buckets are strictly descending and are attempt ids of documents.\<close>

lemma bucket_keys_descending: "sorted_wrt (\<lambda>a b. b < a) (bucket_keys n ds)"
proof -
  let ?ks = "sort (remdups (map (\<lambda>d. attemptId (objectSnapshot d)) ds))"
  have "sorted ?ks \<and> distinct ?ks" by simp
  then have "sorted_wrt (<) ?ks" by (simp add: strict_sorted_iff)
  then have "sorted_wrt (\<lambda>a b. b < a) (rev ?ks)" by (simp add: sorted_wrt_rev)
  then show ?thesis
    unfolding bucket_keys_def by (rule sorted_wrt_take)
qed

lemma bucket_keys_subset:
  "set (bucket_keys n ds) \<subseteq> (\<lambda>d. attemptId (objectSnapshot d)) ` set ds"
proof -
  have "set (bucket_keys n ds) \<subseteq> set (rev (sort (remdups (map (\<lambda>d. attemptId (objectSnapshot d)) ds))))"
    unfolding bucket_keys_def by (rule set_take_subset)
  then show ?thesis by simp
qed

lemma bucket_of_key:
  assumes "k \<in> set (bucket_keys n ds)"
  shows "\<exists>d. collectTime_latest_hits (filter (\<lambda>d. attemptId (objectSnapshot d) = k) ds) = [d]
           \<and> d \<in> set ds \<and> attemptId (objectSnapshot d) = k"
proof -
  from assms bucket_keys_subset have "k \<in> (\<lambda>d. attemptId (objectSnapshot d)) ` set ds"
    by blast
  then have "filter (\<lambda>d. attemptId (objectSnapshot d) = k) ds \<noteq> []"
    by (auto simp: filter_empty_conv)
  from collectTime_latest_hits_single [OF this] show ?thesis by auto
qed

text \<open>Every bucket of the all-attempts request holds exactly one hit, so line 166 never fails.\<close>

lemma retryFrameworks_singletons:
  assumes "\<forall>hits\<in>set bs. \<exists>d. hits = [d]"
  shows "retryFrameworks bs = Inr (map objectSnapshot (concat bs))"
  using assms
proof (induction bs)
  case Nil
  show ?case by simp
next
  case (Cons hits bs)
  then obtain d where "hits = [d]" by auto
  with Cons show ?case by simp
qed

lemma buckets_singletons:
  "\<forall>hits\<in>set (attemptID_group_buckets c u). \<exists>d. hits = [d]"
  unfolding attemptID_group_buckets_def Let_def
  using bucket_of_key by fastforce

lemma singletons_snapshots:
  fixes bs :: "doc list list"
  assumes "\<forall>hits\<in>set bs. \<exists>d. hits = [d]"
  shows "map (\<lambda>f. [f]) (map objectSnapshot (concat bs)) = map (map objectSnapshot) bs"
  using assms by (induction bs) auto

lemma buckets_snapshots:
  "map (\<lambda>f. [f]) (map objectSnapshot (concat (attemptID_group_buckets c u)))
     = map (map objectSnapshot) (attemptID_group_buckets c u)"
  by (rule singletons_snapshots [OF buckets_singletons])

lemma buckets_attemptIds:
  "map attemptId (map objectSnapshot (concat (attemptID_group_buckets c u)))
     = bucket_keys (terms_size c) (uid_filter u (index c))"
proof -
  let ?ds = "uid_filter u (index c)"
  have "\<And>ks. set ks \<subseteq> set (bucket_keys (terms_size c) ?ds) \<Longrightarrow>
    map attemptId (map objectSnapshot (concat
       (map (\<lambda>k. collectTime_latest_hits (filter (\<lambda>d. attemptId (objectSnapshot d) = k) ?ds)) ks)))
    = ks"
  proof -
    fix ks
    show "set ks \<subseteq> set (bucket_keys (terms_size c) ?ds) \<Longrightarrow>
    map attemptId (map objectSnapshot (concat
       (map (\<lambda>k. collectTime_latest_hits (filter (\<lambda>d. attemptId (objectSnapshot d) = k) ?ds)) ks)))
    = ks"
    proof (induction ks)
      case Nil
      show ?case by simp
    next
      case (Cons k ks)
      then have "k \<in> set (bucket_keys (terms_size c) ?ds)" by simp
      from bucket_of_key [OF this] obtain d where
        "collectTime_latest_hits (filter (\<lambda>d. attemptId (objectSnapshot d) = k) ?ds) = [d]"
        "attemptId (objectSnapshot d) = k" by blast
      with Cons show ?case by simp
    qed
  qed
  from this [of "bucket_keys (terms_size c) ?ds"] show ?thesis
    by (simp add: attemptID_group_buckets_def Let_def)
qed

lemma buckets_uids:
  "list_all (\<lambda>f. uid f = Some u) (map objectSnapshot (concat (attemptID_group_buckets c u)))"
proof -
  have "\<And>k d. d \<in> set (collectTime_latest_hits
            (filter (\<lambda>d. attemptId (objectSnapshot d) = k) (uid_filter u (index c))))
        \<Longrightarrow> uid (objectSnapshot d) = Some u"
  proof -
    fix k d
    assume h: "d \<in> set (collectTime_latest_hits
            (filter (\<lambda>d. attemptId (objectSnapshot d) = k) (uid_filter u (index c))))"
    let ?fs = "filter (\<lambda>d. attemptId (objectSnapshot d) = k) (uid_filter u (index c))"
    from h have "?fs \<noteq> []" by auto
    from collectTime_latest_hits_single [OF this] h have "d \<in> set ?fs" by auto
    then show "uid (objectSnapshot d) = Some u" by (simp add: uid_filter_def)
  qed
  then show ?thesis
    by (auto simp: list_all_iff attemptID_group_buckets_def Let_def)
qed

text \<open>
  The one-attempt request has no hit exactly when the index holds no snapshot of that uid
  and attempt; otherwise its only hit is such a snapshot, the one collected last.
\<close>

lemma attemptID_group_hits_empty_iff:
  "attemptID_group_hits c u i = [] \<longleftrightarrow>
     \<not> list_ex (\<lambda>d. uid (objectSnapshot d) = Some u \<and> attemptId (objectSnapshot d) = i) (index c)"
  by (auto simp: attemptID_group_hits_def collectTime_latest_hits_empty_iff uid_filter_def
        filter_empty_conv list_ex_iff)

lemma attemptID_group_hits_latest:
  assumes "attemptID_group_hits c u i = h # rest"
  shows "rest = [] \<and> h \<in> set (index c) \<and> uid (objectSnapshot h) = Some u
         \<and> attemptId (objectSnapshot h) = i
         \<and> (\<forall>d\<in>set (index c). uid (objectSnapshot d) = Some u \<and> attemptId (objectSnapshot d) = i
               \<longrightarrow> collectTime d \<le> collectTime h)"
proof -
  let ?fs = "filter (\<lambda>d. attemptId (objectSnapshot d) = i) (uid_filter u (index c))"
  from assms have ne: "?fs \<noteq> []"
    by (auto simp: attemptID_group_hits_def)
  from collectTime_latest_hits_single [OF ne] assms show ?thesis
    by (auto simp: attemptID_group_hits_def uid_filter_def)
qed

subsection \<open>The example world\<close>

text \<open>Facts of the example world.\<close>

lemma example_keys:
  "encodeName example_runtime (js ''job1'') = js ''job1''"
  "encodeName example_runtime (js ''gone'') = js ''gone''"
  "encodeName example_runtime (js ''broken'') = js ''broken''"
  "encodeName example_runtime (js ''offline'') = js ''offline''"
  "encodeName example_runtime (js ''nouid'') = js ''nouid''"
  by (simp_all add: encodeName_example js_keys)

lemma example_k8s_answers:
  "example_k8s (js ''job1'') = Inr \<lparr>status = 200, data = example_live\<rparr>"
  "example_k8s (js ''nouid'') = Inr \<lparr>status = 200, data = example_live\<lparr>uid := None\<rparr>\<rparr>"
  "example_k8s (js ''broken'') =
     Inl (RequestError ''Request failed with status code 500''
            (Some \<lparr>status = 500, data = example_status ''etcd unavailable''\<rparr>))"
  "example_k8s (js ''offline'') = Inl (RequestError ''connect ECONNREFUSED'' None)"
  "example_k8s (js ''gone'') =
     Inl (RequestError ''Request failed with status code 404''
            (Some \<lparr>status = 404, data = example_status ''not found''\<rparr>))"
  by (simp_all add: example_k8s_def js_keys)

lemma example_get_framework:
  assumes "k8s_get w = example_k8s"
  shows "get_framework example_runtime w (js ''job1'')
      = ([K8sGet (js ''job1'')], Inr \<lparr>status = 200, data = example_live\<rparr>)"
    and "get_framework example_runtime w (js ''nouid'')
      = ([K8sGet (js ''nouid'')], Inr \<lparr>status = 200, data = example_live\<lparr>uid := None\<rparr>\<rparr>)"
    and "get_framework example_runtime w (js ''broken'')
      = ([K8sGet (js ''broken'')],
         Inr \<lparr>status = 500, data = example_status ''etcd unavailable''\<rparr>)"
    and "get_framework example_runtime w (js ''offline'')
      = ([K8sGet (js ''offline'')], Inl (RequestError ''connect ECONNREFUSED'' None))"
    and "get_framework example_runtime w (js ''gone'')
      = ([K8sGet (js ''gone'')], Inr \<lparr>status = 404, data = example_status ''not found''\<rparr>)"
  by (simp_all add: get_framework_cases example_keys example_k8s_answers assms)

lemma example_job1:
  "k8s_get example_world (encodeName example_runtime (js ''job1''))
     = Inr \<lparr>status = 200, data = example_live\<rparr>"
  by (simp add: example_keys example_k8s_answers example_world_def)

lemma example_live_uid: "uid example_live = Some ''u-42''"
  by (simp add: example_live_def example_snapshot_def)

lemma example_live_max: "maxRetryCount example_live = 3"
  by (simp add: example_live_def example_snapshot_def)

lemma example_snapshot_fields:
  "attemptId (example_snapshot i st) = i" "state (example_snapshot i st) = st"
  "uid (example_snapshot i st) = Some ''u-42''" "maxRetryCount (example_snapshot i st) = 3"
  by (simp_all add: example_snapshot_def)

lemma example_buckets:
  "attemptID_group_buckets example_es ''u-42'' =
     [[\<lparr>objectSnapshot = example_snapshot 2 ''FAILED'', collectTime = 60\<rparr>],
      [\<lparr>objectSnapshot = example_snapshot 1 ''FAILED'', collectTime = 40\<rparr>],
      [\<lparr>objectSnapshot = example_snapshot 0 ''FAILED'', collectTime = 20\<rparr>]]"
  by code_simp

lemma example_buckets_current:
  "attemptID_group_buckets
     (example_es\<lparr>index :=
        \<lparr>objectSnapshot = example_snapshot 3 ''WAITING'', collectTime = 80\<rparr> # example_index\<rparr>)
     ''u-42'' =
     [[\<lparr>objectSnapshot = example_snapshot 3 ''WAITING'', collectTime = 80\<rparr>],
      [\<lparr>objectSnapshot = example_snapshot 2 ''FAILED'', collectTime = 60\<rparr>],
      [\<lparr>objectSnapshot = example_snapshot 1 ''FAILED'', collectTime = 40\<rparr>],
      [\<lparr>objectSnapshot = example_snapshot 0 ''FAILED'', collectTime = 20\<rparr>]]"
  by code_simp

lemma example_hits:
  "attemptID_group_hits example_es ''u-42'' 1 =
      [\<lparr>objectSnapshot = example_snapshot 1 ''FAILED'', collectTime = 40\<rparr>]"
  "attemptID_group_hits example_es ''u-42'' (-1) = []"
  "attemptID_group_hits (example_es\<lparr>cat_health := Inr 503\<rparr>) ''u-42'' 1 =
      [\<lparr>objectSnapshot = example_snapshot 1 ''FAILED'', collectTime = 40\<rparr>]"
  by code_simp+

lemma example_list_job1:
  "list example_runtime (\<lambda>f. (attemptId f, state f)) example_world (js ''job1'') =
        ([K8sGet (js ''job1''), EsSearch (AllAttempts ''u-42'')],
         Inr \<lparr>status = 200,
              data = Some [\<lparr>detail = (3, ''RUNNING''), isLatest = True\<rparr>,
                           \<lparr>detail = (2, ''FAILED''), isLatest = False\<rparr>,
                           \<lparr>detail = (1, ''FAILED''), isLatest = False\<rparr>,
                           \<lparr>detail = (0, ''FAILED''), isLatest = False\<rparr>]\<rparr>)"
proof -
  have k: "k8s_get example_world = example_k8s"
    by (simp add: example_world_def)
  have es: "elasticSearchClient example_world = Some example_es"
    by (simp add: example_world_def)
  have sf: "search_failure example_es = None"
    by (simp add: example_es_def)
  show ?thesis
    by (simp add: list_after_fetch [OF example_get_framework(1) [OF k]] es sf
          example_live_uid example_buckets example_live_def example_snapshot_fields)
qed

lemma example_list_current:
  "list example_runtime (\<lambda>f. (attemptId f, state f))
     (example_world\<lparr>elasticSearchClient := Some (example_es\<lparr>index :=
        \<lparr>objectSnapshot = example_snapshot 3 ''WAITING'', collectTime = 80\<rparr> # example_index\<rparr>)\<rparr>)
     (js ''job1'') =
     ([K8sGet (js ''job1''), EsSearch (AllAttempts ''u-42'')],
      Inr \<lparr>status = 200,
           data = Some [\<lparr>detail = (3, ''RUNNING''), isLatest = True\<rparr>,
                        \<lparr>detail = (3, ''WAITING''), isLatest = False\<rparr>,
                        \<lparr>detail = (2, ''FAILED''), isLatest = False\<rparr>,
                        \<lparr>detail = (1, ''FAILED''), isLatest = False\<rparr>,
                        \<lparr>detail = (0, ''FAILED''), isLatest = False\<rparr>]\<rparr>)"
proof -
  let ?c = "example_es\<lparr>index :=
        \<lparr>objectSnapshot = example_snapshot 3 ''WAITING'', collectTime = 80\<rparr> # example_index\<rparr>"
  let ?w = "example_world\<lparr>elasticSearchClient := Some ?c\<rparr>"
  have k: "k8s_get ?w = example_k8s"
    by (simp add: example_world_def)
  have es: "elasticSearchClient ?w = Some ?c"
    by simp
  have sf: "search_failure ?c = None"
    by (simp add: example_es_def)
  show ?thesis
    by (simp add: list_after_fetch [OF example_get_framework(1) [OF k]] sf
          example_live_uid example_buckets_current example_live_def example_snapshot_fields)
qed

subsection \<open>list\<close>

text \<open>
  C4. When the live framework is read with status 200 and a uid, and the all-attempts
  request returns at least one bucket, \<open>list\<close> returns status 200 and a sequence whose
  first element is the converted live framework with \<open>isLatest = true\<close>, followed by one
  entry per bucket, each the converted snapshot of that bucket with \<open>isLatest = false\<close>,
  in the order of the buckets: strictly descending attempt id.
\<close>

theorem list_live_then_history:
  assumes "k8s_get w (encodeName rt n) = Inr r
           \<or> k8s_get w (encodeName rt n) = Inl (RequestError m (Some r))"
    and "status r = 200"
    and "uid (data r) = Some u"
    and "elasticSearchClient w = Some c"
    and "search_failure c = None"
    and "attemptID_group_buckets c u \<noteq> []"
  shows "\<exists>hist.
     list rt cv w n =
       ([K8sGet (encodeName rt n), EsSearch (AllAttempts u)],
        Inr \<lparr>status = 200,
             data = Some (\<lparr>detail = cv (data r), isLatest = True\<rparr> #
                          map (\<lambda>f. \<lparr>detail = cv f, isLatest = False\<rparr>) hist)\<rparr>)
     \<and> map (\<lambda>f. [f]) hist = map (map objectSnapshot) (attemptID_group_buckets c u)
     \<and> map attemptId hist = bucket_keys (terms_size c) (uid_filter u (index c))
     \<and> sorted_wrt (\<lambda>a b. b < a) (map attemptId hist)"
proof -
  let ?hist = "map objectSnapshot (concat (attemptID_group_buckets c u))"
  have f: "get_framework rt w n = ([K8sGet (encodeName rt n)], Inr r)"
    using assms(1) by (rule get_framework_answered)
  have rf: "retryFrameworks (attemptID_group_buckets c u) = Inr ?hist"
    by (rule retryFrameworks_singletons [OF buckets_singletons])
  have "list rt cv w n =
       ([K8sGet (encodeName rt n), EsSearch (AllAttempts u)],
        Inr \<lparr>status = 200,
             data = Some (\<lparr>detail = cv (data r), isLatest = True\<rparr> #
                          map (\<lambda>f. \<lparr>detail = cv f, isLatest = False\<rparr>) ?hist)\<rparr>)"
    using assms(2-6) rf by (simp add: list_after_fetch [OF f])
  moreover have "map (\<lambda>f. [f]) ?hist = map (map objectSnapshot) (attemptID_group_buckets c u)"
    by (rule buckets_snapshots)
  moreover have k: "map attemptId ?hist = bucket_keys (terms_size c) (uid_filter u (index c))"
    by (rule buckets_attemptIds)
  moreover have "sorted_wrt (\<lambda>a b. b < a) (map attemptId ?hist)"
    unfolding k by (rule bucket_keys_descending)
  ultimately show ?thesis by blast
qed

text \<open>
  The example world: the live attempt first, then the attempts 2, 1 and 0, each with its
  latest snapshot.
\<close>

theorem list_live_then_history_witness:
  "(\<exists>hist :: framework list.
      list example_runtime (\<lambda>f. (attemptId f, state f)) example_world (js ''job1'') =
        ([K8sGet (js ''job1''), EsSearch (AllAttempts ''u-42'')],
         Inr \<lparr>status = 200,
              data = Some (\<lparr>detail = (3, ''RUNNING''), isLatest = True\<rparr> #
                map (\<lambda>f. \<lparr>detail = (attemptId f, state f), isLatest = False\<rparr>) hist)\<rparr>)
      \<and> map attemptId hist = [2, 1, 0])
   \<and> list example_runtime (\<lambda>f. (attemptId f, state f)) example_world (js ''job1'') =
        ([K8sGet (js ''job1''), EsSearch (AllAttempts ''u-42'')],
         Inr \<lparr>status = 200,
              data = Some [\<lparr>detail = (3, ''RUNNING''), isLatest = True\<rparr>,
                           \<lparr>detail = (2, ''FAILED''), isLatest = False\<rparr>,
                           \<lparr>detail = (1, ''FAILED''), isLatest = False\<rparr>,
                           \<lparr>detail = (0, ''FAILED''), isLatest = False\<rparr>]\<rparr>)"
proof -
  have h1: "k8s_get example_world (encodeName example_runtime (js ''job1'')) = Inr \<lparr>status = 200, data = example_live\<rparr>
      \<or> k8s_get example_world (encodeName example_runtime (js ''job1''))
          = Inl (RequestError [] (Some \<lparr>status = 200, data = example_live\<rparr>))"
    using example_job1 by simp
  have h2: "status \<lparr>status = 200, data = example_live\<rparr> = 200" by simp
  have h3: "uid (data \<lparr>status = 200, data = example_live\<rparr>) = Some ''u-42''"
    by (simp add: example_live_uid)
  have h4: "elasticSearchClient example_world = Some example_es"
    by (simp add: example_world_def)
  have h5: "search_failure example_es = None"
    by (simp add: example_es_def)
  have h6: "attemptID_group_buckets example_es ''u-42'' \<noteq> []"
    by (simp add: example_buckets)
  have k: "bucket_keys (terms_size example_es) (uid_filter ''u-42'' (index example_es)) = [2, 1, 0]"
    by code_simp
  have l: "(attemptId example_live, state example_live) = (3, ''RUNNING'')"
    by (simp add: example_live_def example_snapshot_def)
  have a: "\<exists>hist :: framework list.
      list example_runtime (\<lambda>f. (attemptId f, state f)) example_world (js ''job1'') =
        ([K8sGet (js ''job1''), EsSearch (AllAttempts ''u-42'')],
         Inr \<lparr>status = 200,
              data = Some (\<lparr>detail = (3, ''RUNNING''), isLatest = True\<rparr> #
                map (\<lambda>f. \<lparr>detail = (attemptId f, state f), isLatest = False\<rparr>) hist)\<rparr>)
      \<and> map attemptId hist = [2, 1, 0]"
    using list_live_then_history [OF h1 h2 h3 h4 h5 h6, of "\<lambda>f. (attemptId f, state f)"]
    apply (simp add: k l example_keys)
    apply (erule exE)
    apply (elim conjE)
    apply (rule exI)
    apply (rule conjI)
     apply assumption
    apply assumption
    done
  from a example_list_job1 show ?thesis by (rule conjI)
qed

text \<open>
  C6. When the live framework is read with status 200 and a uid, but the all-attempts
  request returns no bucket, \<open>list\<close> returns status 404 with null data, although the
  live framework exists.
\<close>

theorem list_no_history_not_found:
  assumes "k8s_get w (encodeName rt n) = Inr r
           \<or> k8s_get w (encodeName rt n) = Inl (RequestError m (Some r))"
    and "status r = 200"
    and "uid (data r) = Some u"
    and "elasticSearchClient w = Some c"
    and "search_failure c = None"
    and "attemptID_group_buckets c u = []"
  shows "list rt cv w n =
       ([K8sGet (encodeName rt n), EsSearch (AllAttempts u)],
        Inr \<lparr>status = 404, data = None\<rparr>)"
proof -
  have f: "get_framework rt w n = ([K8sGet (encodeName rt n)], Inr r)"
    using assms(1) by (rule get_framework_answered)
  show ?thesis
    using assms(2-6) by (simp add: list_after_fetch [OF f])
qed

text \<open>The example world with an empty index.\<close>

theorem list_no_history_not_found_witness:
  "list example_runtime (\<lambda>f. (attemptId f, state f))
     (example_world\<lparr>elasticSearchClient := Some (example_es\<lparr>index := []\<rparr>)\<rparr>) (js ''job1'') =
       ([K8sGet (js ''job1''), EsSearch (AllAttempts ''u-42'')],
        Inr \<lparr>status = 404, data = None\<rparr>)"
proof -
  let ?w = "example_world\<lparr>elasticSearchClient := Some (example_es\<lparr>index := []\<rparr>)\<rparr>"
  have h1: "k8s_get ?w (encodeName example_runtime (js ''job1'')) = Inr \<lparr>status = 200, data = example_live\<rparr>
      \<or> k8s_get ?w (encodeName example_runtime (js ''job1''))
          = Inl (RequestError [] (Some \<lparr>status = 200, data = example_live\<rparr>))"
    using example_job1 by simp
  have h2: "status \<lparr>status = 200, data = example_live\<rparr> = 200" by simp
  have h3: "uid (data \<lparr>status = 200, data = example_live\<rparr>) = Some ''u-42''"
    by (simp add: example_live_uid)
  have h4: "elasticSearchClient ?w = Some (example_es\<lparr>index := []\<rparr>)"
    by simp
  have h5: "search_failure (example_es\<lparr>index := []\<rparr>) = None"
    by (simp add: example_es_def)
  have h6: "attemptID_group_buckets (example_es\<lparr>index := []\<rparr>) ''u-42'' = []"
    by (simp add: attemptID_group_buckets_def uid_filter_def bucket_keys_def)
  show ?thesis
    using list_no_history_not_found [OF h1 h2 h3 h4 h5 h6, of "\<lambda>f. (attemptId f, state f)"]
    by (simp add: example_keys)
qed

text \<open>
  C5, as stated, fails: \<open>list\<close> does not compare the attempt ids of the buckets with the
  live framework. With a snapshot of the running attempt 3 in the index, attempt 3 is
  reported twice, once live and once from the index.
\<close>

theorem list_reports_live_attempt_twice:
  "list example_runtime (\<lambda>f. (attemptId f, state f))
     (example_world\<lparr>elasticSearchClient := Some (example_es\<lparr>index :=
        \<lparr>objectSnapshot = example_snapshot 3 ''WAITING'', collectTime = 80\<rparr> # example_index\<rparr>)\<rparr>)
     (js ''job1'') =
     ([K8sGet (js ''job1''), EsSearch (AllAttempts ''u-42'')],
      Inr \<lparr>status = 200,
           data = Some [\<lparr>detail = (3, ''RUNNING''), isLatest = True\<rparr>,
                        \<lparr>detail = (3, ''WAITING''), isLatest = False\<rparr>,
                        \<lparr>detail = (2, ''FAILED''), isLatest = False\<rparr>,
                        \<lparr>detail = (1, ''FAILED''), isLatest = False\<rparr>,
                        \<lparr>detail = (0, ''FAILED''), isLatest = False\<rparr>]\<rparr>)"
  by (rule example_list_current)

text \<open>
  C5, amended. In every successful result of \<open>list\<close> exactly one entry has
  \<open>isLatest = true\<close>: the first, the converted live framework. The entries after it are
  the converted snapshots of the buckets the all-attempts request returned for the uid of
  the live framework, one per bucket key, with \<open>isLatest = false\<close>; no bucket is left
  out, so the attempt id of the live framework is among them exactly when it is a key of
  a returned bucket.
\<close>

theorem list_marks_live_once:
  assumes "list rt cv w n = (t, Inr \<lparr>status = 200, data = Some es\<rparr>)"
  shows "\<exists>r u c hist.
      get_framework rt w n = ([K8sGet (encodeName rt n)], Inr r)
      \<and> status r = 200 \<and> uid (data r) = Some u \<and> elasticSearchClient w = Some c
      \<and> es = \<lparr>detail = cv (data r), isLatest = True\<rparr> #
              map (\<lambda>f. \<lparr>detail = cv f, isLatest = False\<rparr>) hist
      \<and> filter isLatest es = [\<lparr>detail = cv (data r), isLatest = True\<rparr>]
      \<and> map (\<lambda>f. [f]) hist = map (map objectSnapshot) (attemptID_group_buckets c u)
      \<and> map attemptId hist = bucket_keys (terms_size c) (uid_filter u (index c))"
proof (cases "get_framework rt w n")
  case (Pair t' res)
  then have t': "t' = [K8sGet (encodeName rt n)]"
    by (simp add: get_framework_cases)
  show ?thesis
  proof (cases res)
    case (Inl e)
    with Pair assms show ?thesis by (simp add: list_fetch_failed)
  next
    case (Inr r)
    with Pair t' have f: "get_framework rt w n = ([K8sGet (encodeName rt n)], Inr r)"
      by simp
    let ?hist = "map objectSnapshot (concat (attemptID_group_buckets (the (elasticSearchClient w)) (the (uid (data r)))))"
    have rf: "\<And>c u. retryFrameworks (attemptID_group_buckets c u)
        = Inr (map objectSnapshot (concat (attemptID_group_buckets c u)))"
      by (rule retryFrameworks_singletons [OF buckets_singletons])
    from assms have
      "status r = 200 \<and> (\<exists>u c. uid (data r) = Some u \<and> elasticSearchClient w = Some c
         \<and> es = \<lparr>detail = cv (data r), isLatest = True\<rparr> #
              map (\<lambda>f. \<lparr>detail = cv f, isLatest = False\<rparr>)
                (map objectSnapshot (concat (attemptID_group_buckets c u))))"
      by (simp add: list_after_fetch [OF f] rf split: if_splits option.splits sum.splits)
    then obtain u c where
      s: "status r = 200" and u: "uid (data r) = Some u" and c: "elasticSearchClient w = Some c"
      and es: "es = \<lparr>detail = cv (data r), isLatest = True\<rparr> #
              map (\<lambda>f. \<lparr>detail = cv f, isLatest = False\<rparr>)
                (map objectSnapshot (concat (attemptID_group_buckets c u)))"
      by blast
    have fl: "filter isLatest es = [\<lparr>detail = cv (data r), isLatest = True\<rparr>]"
      unfolding es by (simp add: filter_empty_conv)
    have k: "map attemptId (map objectSnapshot (concat (attemptID_group_buckets c u)))
        = bucket_keys (terms_size c) (uid_filter u (index c))"
      by (rule buckets_attemptIds)
    have b: "map (\<lambda>f. [f]) (map objectSnapshot (concat (attemptID_group_buckets c u)))
        = map (map objectSnapshot) (attemptID_group_buckets c u)"
      by (rule buckets_snapshots)
    from f s u c es fl b k show ?thesis by blast
  qed
qed

text \<open>The result of the example above, with the snapshot of attempt 3 in the index.\<close>

theorem list_marks_live_once_witness:
  "\<exists>r u c (hist :: framework list).
      get_framework example_runtime
        (example_world\<lparr>elasticSearchClient := Some (example_es\<lparr>index :=
           \<lparr>objectSnapshot = example_snapshot 3 ''WAITING'', collectTime = 80\<rparr> # example_index\<rparr>)\<rparr>)
        (js ''job1'') = ([K8sGet (encodeName example_runtime (js ''job1''))], Inr r)
      \<and> status r = 200 \<and> uid (data r) = Some u
      \<and> elasticSearchClient
           (example_world\<lparr>elasticSearchClient := Some (example_es\<lparr>index :=
              \<lparr>objectSnapshot = example_snapshot 3 ''WAITING'', collectTime = 80\<rparr> # example_index\<rparr>)\<rparr>)
          = Some c
      \<and> [\<lparr>detail = (3, ''RUNNING''), isLatest = True\<rparr>,
          \<lparr>detail = (3, ''WAITING''), isLatest = False\<rparr>,
          \<lparr>detail = (2, ''FAILED''), isLatest = False\<rparr>,
          \<lparr>detail = (1, ''FAILED''), isLatest = False\<rparr>,
          \<lparr>detail = (0, ''FAILED''), isLatest = False\<rparr>]
        = \<lparr>detail = (attemptId (data r), state (data r)), isLatest = True\<rparr> #
          map (\<lambda>f. \<lparr>detail = (attemptId f, state f), isLatest = False\<rparr>) hist
      \<and> filter isLatest
          [\<lparr>detail = (3, ''RUNNING''), isLatest = True\<rparr>,
           \<lparr>detail = (3, ''WAITING''), isLatest = False\<rparr>,
           \<lparr>detail = (2, ''FAILED''), isLatest = False\<rparr>,
           \<lparr>detail = (1, ''FAILED''), isLatest = False\<rparr>,
           \<lparr>detail = (0, ''FAILED''), isLatest = False\<rparr>]
        = [\<lparr>detail = (attemptId (data r), state (data r)), isLatest = True\<rparr>]
      \<and> map (\<lambda>f. [f]) hist = map (map objectSnapshot) (attemptID_group_buckets c u)
      \<and> map attemptId hist = bucket_keys (terms_size c) (uid_filter u (index c))"
  by (rule list_marks_live_once [OF example_list_current])

subsection \<open>get\<close>

text \<open>
  C1. When the live framework is read with status 200, \<open>get\<close> compares the index asked
  for with \<open>maxRetryCount\<close> of the live framework. Below it (with a uid, a configured
  client and a search that answers) the one-attempt request is sent and decides: no hit
  gives 404, otherwise the converted snapshot of the first hit with \<open>isLatest = false\<close>.
  Equal to it, the converted live framework is returned with \<open>isLatest = true\<close> and no
  search request is sent. Above it the result is 404, and no search request is sent,
  whatever the index holds.
\<close>

theorem get_boundary_rule:
  assumes "k8s_get w (encodeName rt n) = Inr r
           \<or> k8s_get w (encodeName rt n) = Inl (RequestError m (Some r))"
    and "status r = 200"
  shows "(i < maxRetryCount (data r) \<longrightarrow>
            (\<forall>u c. uid (data r) = Some u \<and> elasticSearchClient w = Some c
                   \<and> search_failure c = None \<longrightarrow>
               get rt cv w n i =
                 ([K8sGet (encodeName rt n), EsSearch (OneAttempt u i)],
                  Inr (case attemptID_group_hits c u i of
                         [] \<Rightarrow> \<lparr>status = 404, data = None\<rparr>
                       | h # rest \<Rightarrow>
                           \<lparr>status = 200,
                            data = Some \<lparr>detail = cv (objectSnapshot h), isLatest = False\<rparr>\<rparr>))))
       \<and> (i = maxRetryCount (data r) \<longrightarrow>
            get rt cv w n i =
              ([K8sGet (encodeName rt n)],
               Inr \<lparr>status = 200, data = Some \<lparr>detail = cv (data r), isLatest = True\<rparr>\<rparr>))
       \<and> (maxRetryCount (data r) < i \<longrightarrow>
            get rt cv w n i = ([K8sGet (encodeName rt n)], Inr \<lparr>status = 404, data = None\<rparr>))"
proof -
  have f: "get_framework rt w n = ([K8sGet (encodeName rt n)], Inr r)"
    using assms(1) by (rule get_framework_answered)
  show ?thesis
    using assms(2) by (auto simp: get_after_fetch [OF f] split: list.splits)
qed

text \<open>The example world at the indices 1, -1 (no snapshot), 3 and 4.\<close>

theorem get_boundary_rule_witness:
  "get example_runtime (\<lambda>f. (attemptId f, state f)) example_world (js ''job1'') 1 =
     ([K8sGet (js ''job1''), EsSearch (OneAttempt ''u-42'' 1)],
      Inr \<lparr>status = 200, data = Some \<lparr>detail = (1, ''FAILED''), isLatest = False\<rparr>\<rparr>)
   \<and> get example_runtime (\<lambda>f. (attemptId f, state f)) example_world (js ''job1'') (-1) =
     ([K8sGet (js ''job1''), EsSearch (OneAttempt ''u-42'' (-1))],
      Inr \<lparr>status = 404, data = None\<rparr>)
   \<and> get example_runtime (\<lambda>f. (attemptId f, state f)) example_world (js ''job1'') 3 =
     ([K8sGet (js ''job1'')],
      Inr \<lparr>status = 200, data = Some \<lparr>detail = (3, ''RUNNING''), isLatest = True\<rparr>\<rparr>)
   \<and> get example_runtime (\<lambda>f. (attemptId f, state f)) example_world (js ''job1'') 4 =
     ([K8sGet (js ''job1'')], Inr \<lparr>status = 404, data = None\<rparr>)"
proof -
  let ?cv = "\<lambda>f :: framework. (attemptId f, state f)"
  let ?r = "\<lparr>status = 200, data = example_live\<rparr>"
  have h1: "k8s_get example_world (encodeName example_runtime (js ''job1'')) = Inr ?r
      \<or> k8s_get example_world (encodeName example_runtime (js ''job1''))
          = Inl (RequestError [] (Some ?r))"
    using example_job1 by simp
  have h2: "status ?r = 200" by simp
  have es: "uid (data ?r) = Some ''u-42'' \<and> elasticSearchClient example_world = Some example_es
      \<and> search_failure example_es = None"
    by (simp add: example_live_uid example_world_def example_es_def)
  have m: "maxRetryCount (data ?r) = 3"
    by (simp add: example_live_max)
  have l: "?cv example_live = (3, ''RUNNING'')"
    by (simp add: example_live_def example_snapshot_def)
  have s: "?cv (example_snapshot 1 ''FAILED'') = (1, ''FAILED'')"
    by (simp add: example_snapshot_def)
  have a: "get example_runtime ?cv example_world (js ''job1'') 1 =
     ([K8sGet (js ''job1''), EsSearch (OneAttempt ''u-42'' 1)],
      Inr \<lparr>status = 200, data = Some \<lparr>detail = (1, ''FAILED''), isLatest = False\<rparr>\<rparr>)"
    using get_boundary_rule [OF h1 h2, of 1 ?cv] es m by (simp add: example_hits s example_keys)
  have b: "get example_runtime ?cv example_world (js ''job1'') (-1) =
     ([K8sGet (js ''job1''), EsSearch (OneAttempt ''u-42'' (-1))],
      Inr \<lparr>status = 404, data = None\<rparr>)"
    using get_boundary_rule [OF h1 h2, of "-1" ?cv] es m by (simp add: example_hits example_keys)
  have c: "get example_runtime ?cv example_world (js ''job1'') 3 =
     ([K8sGet (js ''job1'')],
      Inr \<lparr>status = 200, data = Some \<lparr>detail = (3, ''RUNNING''), isLatest = True\<rparr>\<rparr>)"
    using get_boundary_rule [OF h1 h2, of 3 ?cv] m by (simp add: l example_keys)
  have d: "get example_runtime ?cv example_world (js ''job1'') 4 =
     ([K8sGet (js ''job1'')], Inr \<lparr>status = 404, data = None\<rparr>)"
    using get_boundary_rule [OF h1 h2, of 4 ?cv] m by (simp add: example_keys)
  from a b c d show ?thesis by simp
qed

subsection \<open>Outcomes of the read\<close>

text \<open>
  The outcomes of the read in \<open>list\<close> and \<open>get\<close>, whether the client returned the answer
  or threw an error that carries it. Status 404: \<open>JSON.stringify(response)\<close> is
  evaluated for the log, and the call returns \<open>{status: 404, data: null}\<close> only if that
  does not throw. A status that is neither 200 nor 404 throws the error created from the
  status and the message of the answer; an error without an answer is thrown again. In
  all three cases the only request sent is the read itself.
\<close>

lemma live_fetch_outcomes:
  "((k8s_get w (encodeName rt n) = Inr r
       \<or> k8s_get w (encodeName rt n) = Inl (RequestError m (Some r)))
      \<and> status r = 404 \<longrightarrow>
      list rt cv w n =
        ([K8sGet (encodeName rt n)],
         case JSON_stringify w r of
           Inl e \<Rightarrow> Inl e
         | Inr text \<Rightarrow> Inr \<lparr>status = 404, data = None\<rparr>)
      \<and> get rt cv w n i =
        ([K8sGet (encodeName rt n)],
         case JSON_stringify w r of
           Inl e \<Rightarrow> Inl e
         | Inr text \<Rightarrow> Inr \<lparr>status = 404, data = None\<rparr>))
   \<and> ((k8s_get w (encodeName rt n) = Inr r
       \<or> k8s_get w (encodeName rt n) = Inl (RequestError m (Some r)))
      \<and> status r \<noteq> 200 \<and> status r \<noteq> 404 \<longrightarrow>
      list rt cv w n =
        ([K8sGet (encodeName rt n)],
         Inl (HttpError (status r) ''UnknownError'' (message (data r))))
      \<and> get rt cv w n i =
        ([K8sGet (encodeName rt n)],
         Inl (HttpError (status r) ''UnknownError'' (message (data r)))))
   \<and> (k8s_get w (encodeName rt n) = Inl e \<and> error_response e = None \<longrightarrow>
      list rt cv w n = ([K8sGet (encodeName rt n)], Inl e)
      \<and> get rt cv w n i = ([K8sGet (encodeName rt n)], Inl e))"
proof (intro conjI impI)
  assume h: "(k8s_get w (encodeName rt n) = Inr r
       \<or> k8s_get w (encodeName rt n) = Inl (RequestError m (Some r))) \<and> status r = 404"
  then have f: "get_framework rt w n = ([K8sGet (encodeName rt n)], Inr r)"
    using get_framework_answered by blast
  from h show "list rt cv w n =
        ([K8sGet (encodeName rt n)],
         case JSON_stringify w r of
           Inl e \<Rightarrow> Inl e
         | Inr text \<Rightarrow> Inr \<lparr>status = 404, data = None\<rparr>)"
    by (simp add: list_after_fetch [OF f] split: sum.splits)
  from h show "get rt cv w n i =
        ([K8sGet (encodeName rt n)],
         case JSON_stringify w r of
           Inl e \<Rightarrow> Inl e
         | Inr text \<Rightarrow> Inr \<lparr>status = 404, data = None\<rparr>)"
    by (simp add: get_after_fetch [OF f] split: sum.splits)
next
  assume h: "(k8s_get w (encodeName rt n) = Inr r
       \<or> k8s_get w (encodeName rt n) = Inl (RequestError m (Some r)))
      \<and> status r \<noteq> 200 \<and> status r \<noteq> 404"
  then have f: "get_framework rt w n = ([K8sGet (encodeName rt n)], Inr r)"
    using get_framework_answered by blast
  from h show "list rt cv w n =
        ([K8sGet (encodeName rt n)],
         Inl (HttpError (status r) ''UnknownError'' (message (data r))))"
    by (simp add: list_after_fetch [OF f])
  from h show "get rt cv w n i =
        ([K8sGet (encodeName rt n)],
         Inl (HttpError (status r) ''UnknownError'' (message (data r))))"
    by (simp add: get_after_fetch [OF f])
next
  assume h: "k8s_get w (encodeName rt n) = Inl e \<and> error_response e = None"
  then have f: "get_framework rt w n = ([K8sGet (encodeName rt n)], Inl e)"
    using get_framework_rethrown by blast
  show "list rt cv w n = ([K8sGet (encodeName rt n)], Inl e)"
    by (rule list_fetch_failed [OF f])
  show "get rt cv w n i = ([K8sGet (encodeName rt n)], Inl e)"
    by (rule get_fetch_failed [OF f])
qed

text \<open>
  The keys \<open>broken\<close> and \<open>offline\<close> of the example world: the error created from status
  500, and the error without an answer thrown again.
\<close>

lemma live_fetch_outcomes_examples:
  "list example_runtime (\<lambda>f. state f) example_world (js ''broken'')
     = ([K8sGet (js ''broken'')], Inl (HttpError 500 ''UnknownError'' ''etcd unavailable''))
   \<and> get example_runtime (\<lambda>f. state f) example_world (js ''broken'') 0
     = ([K8sGet (js ''broken'')], Inl (HttpError 500 ''UnknownError'' ''etcd unavailable''))
   \<and> list example_runtime (\<lambda>f. state f) example_world (js ''offline'')
     = ([K8sGet (js ''offline'')], Inl (RequestError ''connect ECONNREFUSED'' None))
   \<and> get example_runtime (\<lambda>f. state f) example_world (js ''offline'') 0
     = ([K8sGet (js ''offline'')], Inl (RequestError ''connect ECONNREFUSED'' None))"
proof -
  have k: "k8s_get example_world = example_k8s"
    by (simp add: example_world_def)
  show ?thesis
    by (simp add: list_after_fetch [OF example_get_framework(3) [OF k]]
          get_after_fetch [OF example_get_framework(3) [OF k]]
          list_fetch_failed [OF example_get_framework(4) [OF k]]
          get_fetch_failed [OF example_get_framework(4) [OF k]] example_status_def)
qed

text \<open>
  C7. The claim: a 404 from the Kubernetes API makes \<open>list\<close> and \<open>get\<close> return
  \<open>{status: 404, data: null}\<close>, any other status that is not a success raises an error
  with the status and message of the answer, an error without an answer is raised again,
  and no search is sent in any of these cases. The code: on status 404 lines 107 and 212
  evaluate \<open>JSON.stringify(response)\<close> for the log before the return. On the answer of
  the HTTP client, a circular structure, that throws a TypeError: for a framework the API
  does not know, \<open>list\<close> and \<open>get\<close> end with that TypeError, not with 404. The other two
  outcomes, and the absence of a search in all three, are as the claim says.
\<close>

theorem not_found_answer_throws:
  "list example_runtime (\<lambda>f. state f) example_world (js ''gone'')
     = ([K8sGet (js ''gone'')], Inl (TypeError ''Converting circular structure to JSON''))
   \<and> get example_runtime (\<lambda>f. state f) example_world (js ''gone'') 0
     = ([K8sGet (js ''gone'')], Inl (TypeError ''Converting circular structure to JSON''))"
proof -
  have k: "k8s_get example_world = example_k8s"
    by (simp add: example_world_def)
  have j: "JSON_stringify example_world \<lparr>status = 404, data = example_status ''not found''\<rparr>
      = Inl (TypeError ''Converting circular structure to JSON'')"
    by (simp add: example_world_def)
  show ?thesis
    by (simp add: list_after_fetch [OF example_get_framework(5) [OF k]]
          get_after_fetch [OF example_get_framework(5) [OF k]] j)
qed

text \<open>
  C10. When the live framework is read with status 200 and its uid is nil, \<open>list\<close>, and
  \<open>get\<close> for an index below \<open>maxRetryCount\<close>, return \<open>{status: 404, data: null}\<close>
  and send no search request.
\<close>

theorem nil_uid_not_found:
  assumes "k8s_get w (encodeName rt n) = Inr r
           \<or> k8s_get w (encodeName rt n) = Inl (RequestError m (Some r))"
    and "status r = 200"
    and "uid (data r) = None"
  shows "list rt cv w n = ([K8sGet (encodeName rt n)], Inr \<lparr>status = 404, data = None\<rparr>)
       \<and> (i < maxRetryCount (data r) \<longrightarrow>
            get rt cv w n i = ([K8sGet (encodeName rt n)], Inr \<lparr>status = 404, data = None\<rparr>))"
proof -
  have f: "get_framework rt w n = ([K8sGet (encodeName rt n)], Inr r)"
    using assms(1) by (rule get_framework_answered)
  show ?thesis
    using assms(2,3) by (simp add: list_after_fetch [OF f] get_after_fetch [OF f])
qed

text \<open>The key \<open>nouid\<close> of the example world.\<close>

theorem nil_uid_not_found_witness:
  "list example_runtime (\<lambda>f. state f) example_world (js ''nouid'')
     = ([K8sGet (js ''nouid'')], Inr \<lparr>status = 404, data = None\<rparr>)
   \<and> get example_runtime (\<lambda>f. state f) example_world (js ''nouid'') 1
     = ([K8sGet (js ''nouid'')], Inr \<lparr>status = 404, data = None\<rparr>)"
proof -
  let ?r = "\<lparr>status = 200, data = example_live\<lparr>uid := None\<rparr>\<rparr>"
  have h1: "k8s_get example_world (encodeName example_runtime (js ''nouid'')) = Inr ?r
      \<or> k8s_get example_world (encodeName example_runtime (js ''nouid'')) = Inl (RequestError [] (Some ?r))"
    by (simp add: example_keys example_k8s_answers example_world_def)
  have h2: "status ?r = 200" by simp
  have h3: "uid (data ?r) = None" by simp
  have m: "maxRetryCount (data ?r) = 3" by (simp add: example_live_max)
  show ?thesis
    using nil_uid_not_found [OF h1 h2 h3, of "\<lambda>f. state f" 1] m
    by (simp add: example_keys)
qed

subsection \<open>The guard on healthCheck\<close>

text \<open>
  The guard \<open>!healthCheck\<close> is never true: no call of \<open>list\<close> or \<open>get\<close> returns 501, and
  every call sends the read of the live framework.
\<close>

lemma list_never_501: "snd (list rt cv w n) \<noteq> Inr \<lparr>status = 501, data = d\<rparr>"
proof (cases "get_framework rt w n")
  case (Pair t res)
  show ?thesis
  proof (cases res)
    case (Inl e)
    with Pair show ?thesis by (simp add: list_fetch_failed)
  next
    case (Inr r)
    with Pair have f: "get_framework rt w n = (t, Inr r)" by simp
    show ?thesis
      by (simp add: list_after_fetch [OF f] split: option.splits sum.splits)
  qed
qed

lemma get_never_501: "snd (get rt cv w n i) \<noteq> Inr \<lparr>status = 501, data = d\<rparr>"
proof (cases "get_framework rt w n")
  case (Pair t res)
  show ?thesis
  proof (cases res)
    case (Inl e)
    with Pair show ?thesis by (simp add: get_fetch_failed)
  next
    case (Inr r)
    with Pair have f: "get_framework rt w n = (t, Inr r)" by simp
    show ?thesis
      by (simp add: get_after_fetch [OF f] split: option.splits sum.splits list.splits)
  qed
qed

lemma list_contacts_orchestrator: "fst (list rt cv w n) \<noteq> []"
proof (cases "get_framework rt w n")
  case (Pair t res)
  then have t: "t = [K8sGet (encodeName rt n)]" by (simp add: get_framework_cases)
  show ?thesis
  proof (cases res)
    case (Inl e)
    with Pair t show ?thesis by (simp add: list_fetch_failed)
  next
    case (Inr r)
    with Pair have f: "get_framework rt w n = (t, Inr r)" by simp
    show ?thesis
      using t by (simp add: list_after_fetch [OF f] split: option.splits sum.splits)
  qed
qed

text \<open>
  C2. The claim: when \<open>healthCheck\<close> would report false, \<open>list\<close> and \<open>get\<close> return
  \<open>{status: 501, data: null}\<close> at once and contact neither service. The code: without
  an Elasticsearch client \<open>healthCheck\<close> reports false, yet \<open>list\<close> and \<open>get\<close> read the
  live framework and then fail with a TypeError at the search (or answer 200 where no
  search is needed); with a client whose probe is answered with 503, \<open>get\<close> queries the
  index and answers 200.
\<close>

theorem healthCheck_guard_never_taken:
  "healthCheck (example_world\<lparr>elasticSearchClient := None\<rparr>) = ([], Inr False)
   \<and> list example_runtime (\<lambda>f. (attemptId f, state f))
        (example_world\<lparr>elasticSearchClient := None\<rparr>) (js ''job1'')
      = ([K8sGet (js ''job1'')], Inl (TypeError ''Cannot read property search of undefined''))
   \<and> get example_runtime (\<lambda>f. (attemptId f, state f))
        (example_world\<lparr>elasticSearchClient := None\<rparr>) (js ''job1'') 1
      = ([K8sGet (js ''job1'')], Inl (TypeError ''Cannot read property search of undefined''))
   \<and> get example_runtime (\<lambda>f. (attemptId f, state f))
        (example_world\<lparr>elasticSearchClient := None\<rparr>) (js ''job1'') 3
      = ([K8sGet (js ''job1'')],
         Inr \<lparr>status = 200, data = Some \<lparr>detail = (3, ''RUNNING''), isLatest = True\<rparr>\<rparr>)
   \<and> healthCheck (example_world\<lparr>elasticSearchClient :=
        Some (example_es\<lparr>cat_health := Inr 503\<rparr>)\<rparr>) = ([EsCatHealth], Inr False)
   \<and> get example_runtime (\<lambda>f. (attemptId f, state f))
        (example_world\<lparr>elasticSearchClient :=
           Some (example_es\<lparr>cat_health := Inr 503\<rparr>)\<rparr>) (js ''job1'') 1
      = ([K8sGet (js ''job1''), EsSearch (OneAttempt ''u-42'' 1)],
         Inr \<lparr>status = 200, data = Some \<lparr>detail = (1, ''FAILED''), isLatest = False\<rparr>\<rparr>)"
proof -
  let ?w0 = "example_world\<lparr>elasticSearchClient := None\<rparr>"
  let ?w1 = "example_world\<lparr>elasticSearchClient := Some (example_es\<lparr>cat_health := Inr 503\<rparr>)\<rparr>"
  have k0: "k8s_get ?w0 = example_k8s" and k1: "k8s_get ?w1 = example_k8s"
    by (simp_all add: example_world_def)
  have sf: "search_failure (example_es\<lparr>cat_health := Inr 503\<rparr>) = None"
    by (simp add: example_es_def)
  have 1: "healthCheck ?w0 = ([], Inr False)"
    by (simp add: healthCheck_cases)
  have 2: "list example_runtime (\<lambda>f. (attemptId f, state f)) ?w0 (js ''job1'')
      = ([K8sGet (js ''job1'')], Inl (TypeError ''Cannot read property search of undefined''))"
    by (simp add: list_after_fetch [OF example_get_framework(1) [OF k0]] example_live_uid)
  have 3: "get example_runtime (\<lambda>f. (attemptId f, state f)) ?w0 (js ''job1'') 1
      = ([K8sGet (js ''job1'')], Inl (TypeError ''Cannot read property search of undefined''))"
    by (simp add: get_after_fetch [OF example_get_framework(1) [OF k0]] example_live_uid
          example_live_max)
  have 4: "get example_runtime (\<lambda>f. (attemptId f, state f)) ?w0 (js ''job1'') 3
      = ([K8sGet (js ''job1'')],
         Inr \<lparr>status = 200, data = Some \<lparr>detail = (3, ''RUNNING''), isLatest = True\<rparr>\<rparr>)"
    by (simp add: get_after_fetch [OF example_get_framework(1) [OF k0]] example_live_max
          example_live_def example_snapshot_fields)
  have 5: "healthCheck ?w1 = ([EsCatHealth], Inr False)"
    by (simp add: healthCheck_cases)
  have 6: "get example_runtime (\<lambda>f. (attemptId f, state f)) ?w1 (js ''job1'') 1
      = ([K8sGet (js ''job1''), EsSearch (OneAttempt ''u-42'' 1)],
         Inr \<lparr>status = 200, data = Some \<lparr>detail = (1, ''FAILED''), isLatest = False\<rparr>\<rparr>)"
    by (simp add: get_after_fetch [OF example_get_framework(1) [OF k1]] example_live_uid
          example_live_max sf example_hits example_snapshot_fields)
  from 1 2 3 4 5 6 show ?thesis by (simp only: simp_thms)
qed

end
